theory Spec2Isabelle
  imports Complex_Main
begin

section \<open>JavaScript values\<close>

text \<open>
  The script \<^verbatim>\<open>run-eval.mjs\<close> works on values parsed from JSON responses. They are
  modelled by one datatype. A string is a list of characters, one per UTF-16 code unit
  of the JavaScript string, so \<open>length\<close> is JavaScript's \<^verbatim>\<open>.length\<close>. A number is the
  exact value of the double, a rational; the arithmetic of the script rounds its results
  to doubles (\<open>round_double\<close> below). \<^verbatim>\<open>NaN\<close> and the infinities are not modelled: the
  numbers of a response and what the script computes from them are taken to stay within
  the range of the doubles. An object is the list of its own properties in the order
  in which \<^verbatim>\<open>Object.keys\<close> and \<^verbatim>\<open>for ... in\<close> enumerate them, each key once;
  a property that is missing reads as \<^verbatim>\<open>undefined\<close>.
\<close>

datatype jsval =
    JUndefined
  | JNull
  | JBool bool
  | JNum rat
  | JStr string
  | JArr "jsval list"
  | JObj "(string \<times> jsval) list"

text \<open>\<^verbatim>\<open>!v\<close> is \<open>\<not> truthy v\<close>.\<close>

fun truthy :: "jsval \<Rightarrow> bool" where
  "truthy JUndefined = False"
| "truthy JNull = False"
| "truthy (JBool b) = b"
| "truthy (JNum n) = (n \<noteq> 0)"
| "truthy (JStr s) = (s \<noteq> [])"
| "truthy (JArr xs) = True"
| "truthy (JObj kvs) = True"

text \<open>\<^verbatim>\<open>a || b\<close>, for operands whose evaluation has no effect.\<close>

definition js_or :: "jsval \<Rightarrow> jsval \<Rightarrow> jsval" where
  "js_or a b = (if truthy a then a else b)"

text \<open>\<^verbatim>\<open>v !== null && v !== undefined\<close>\<close>

fun nullish :: "jsval \<Rightarrow> bool" where
  "nullish JUndefined = True"
| "nullish JNull = True"
| "nullish v = False"

text \<open>
  \<^verbatim>\<open>v.k\<close> for a value that is neither \<^verbatim>\<open>null\<close> nor \<^verbatim>\<open>undefined\<close> (reading a
  property of those throws a TypeError, which the callers below check first) and a key
  \<open>k\<close> that is no built-in property: the own property of an object, \<^verbatim>\<open>undefined\<close>
  on everything else.
\<close>

fun field :: "jsval \<Rightarrow> string \<Rightarrow> jsval" where
  "field (JObj kvs) k = (case map_of kvs k of None \<Rightarrow> JUndefined | Some v \<Rightarrow> v)"
| "field v k = JUndefined"

datatype error =
    FetchFailed
  | RequestFailed nat string string
  | TypeError
  | MaxWaitExceeded string

subsection \<open>Double arithmetic\<close>

definition power_of :: "int \<Rightarrow> int \<Rightarrow> rat" where
  "power_of b e = (if 0 \<le> e then of_int b ^ nat e else 1 / of_int b ^ nat (- e))"

text \<open>The number of digits of a positive integer in base \<open>b\<close>.\<close>

function digit_count :: "int \<Rightarrow> int \<Rightarrow> int" where
  "digit_count b n = (if n \<le> 0 \<or> b \<le> 1 then 0 else 1 + digit_count b (n div b))"
  by pat_completeness auto
termination
  by (relation "measure (\<lambda>(b, n). nat n)") (auto simp: int_div_less_self)

declare digit_count.simps [simp del]

text \<open>For a positive number \<open>a\<close>, the integer \<open>n\<close> with \<open>b\<^sup>n\<^sup>-\<^sup>1 \<le> a < b\<^sup>n\<close>.\<close>

definition magnitude :: "int \<Rightarrow> rat \<Rightarrow> int" where
  "magnitude b a =
     (case quotient_of a of (p, q) \<Rightarrow>
        let d = digit_count b p - digit_count b q
        in if a < power_of b d then d else d + 1)"

definition round_half_even :: "rat \<Rightarrow> int" where
  "round_half_even r =
     (let f = \<lfloor>r\<rfloor>; d = r - of_int f
      in if d < 1 / 2 then f else if 1 / 2 < d then f + 1 else if even f then f else f + 1)"

text \<open>
  The double nearest to a rational, by the rounding of IEEE 754 (to the nearest, a tie to
  the even significand): a significand of 53 bits, subnormal numbers below
  \<open>2\<^sup>-\<^sup>1\<^sup>0\<^sup>2\<^sup>2\<close>. It is what a decimal literal of JSON denotes and what an
  arithmetic operation returns for its exact result. The overflow to an infinity is not
  modelled.
\<close>

definition round_double :: "rat \<Rightarrow> rat" where
  "round_double x =
     (if x = 0 then 0
      else let a = \<bar>x\<bar>;
               e = max (magnitude 2 a - 1) (- 1022);
               ulp = power_of 2 (e - 52);
               n = round_half_even (a / ulp)
           in sgn x * of_int n * ulp)"

text \<open>\<^verbatim>\<open>a + b\<close> and \<^verbatim>\<open>a / b\<close> on numbers.\<close>

definition js_add :: "rat \<Rightarrow> rat \<Rightarrow> rat" where
  "js_add a b = round_double (a + b)"

definition js_divide :: "rat \<Rightarrow> rat \<Rightarrow> rat" where
  "js_divide a b = round_double (a / b)"

subsection \<open>Printing numbers\<close>

definition digit_char :: "nat \<Rightarrow> char" where
  "digit_char d = char_of (48 + d)"

fun digits :: "nat \<Rightarrow> string" where
  "digits n = (if n < 10 then [digit_char n] else digits (n div 10) @ [digit_char (n mod 10)])"

declare digits.simps [simp del]

text \<open>The same digits, computed on integers.\<close>

function decimal_digits :: "int \<Rightarrow> string" where
  "decimal_digits n =
     (if n < 10 then [digit_char (nat n)]
      else decimal_digits (n div 10) @ [digit_char (nat (n mod 10))])"
  by pat_completeness auto
termination
  by (relation "measure nat") auto

declare decimal_digits.simps [simp del]

text \<open>
  \<^verbatim>\<open>String(x)\<close> of a number, as ECMAScript defines it: with \<open>k\<close> as small as possible,
  the digits \<open>s\<close> (\<open>k\<close> of them) and the exponent \<open>n\<close> such that \<open>s \<times> 10\<^sup>n\<^sup>-\<^sup>k\<close> rounds
  to the number, the closest such \<open>s\<close> (the even one of two); then the notation chosen by
  \<open>n\<close>. For \<open>k\<close> digits the candidates are the two multiples of \<open>10\<^sup>n\<^sup>-\<^sup>k\<close> around
  the number, where \<open>n\<close> is the decimal magnitude of the number; the upper one may be
  \<open>10\<^sup>n\<close>, which has the digit 1 and the exponent \<open>n + 1\<close>. 17 digits are always enough.
\<close>

definition digit_candidates :: "rat \<Rightarrow> int \<Rightarrow> nat \<Rightarrow> int list" where
  "digit_candidates a n k =
     (let unit = power_of 10 (n - int k); f = \<lfloor>a / unit\<rfloor>
      in filter (\<lambda>s. round_double (of_int s * unit) = a)
           (if of_int f * unit = a then [f] else [f, f + 1]))"

definition closest_digits :: "rat \<Rightarrow> int \<Rightarrow> nat \<Rightarrow> int option" where
  "closest_digits a n k =
     (let unit = power_of 10 (n - int k)
      in case digit_candidates a n k of
           [] \<Rightarrow> None
         | [s] \<Rightarrow> Some s
         | s # t # _ \<Rightarrow>
             (if a - of_int s * unit < of_int t * unit - a then Some s
              else if of_int t * unit - a < a - of_int s * unit then Some t
              else if even s then Some s else Some t))"

fun shortest_digits :: "nat \<Rightarrow> rat \<Rightarrow> int \<Rightarrow> nat \<Rightarrow> int \<times> int \<times> nat" where
  "shortest_digits 0 a n k = (round_half_even (a / power_of 10 (n - int k)), n, k)"
| "shortest_digits (Suc fuel) a n k =
     (case closest_digits a n k of
        None \<Rightarrow> shortest_digits fuel a n (Suc k)
      | Some s \<Rightarrow> if s = 10 ^ k then (10 ^ (k - 1), n + 1, k) else (s, n, k))"

definition number_to_string :: "rat \<Rightarrow> string" where
  "number_to_string x =
     (let y = round_double x in
      if y = 0 then ''0''
      else (if y < 0 then ''-'' else [])
        @ (case shortest_digits 16 \<bar>y\<bar> (magnitude 10 \<bar>y\<bar>) 1 of (s, n, k) \<Rightarrow>
             let ds = decimal_digits s
             in if int k \<le> n \<and> n \<le> 21 then ds @ replicate (nat (n - int k)) (CHR ''0'')
                else if 0 < n \<and> n \<le> 21 then take (nat n) ds @ ''.'' @ drop (nat n) ds
                else if - 6 < n \<and> n \<le> 0 then ''0.'' @ replicate (nat (- n)) (CHR ''0'') @ ds
                else let e = n - 1;
                         exponent = (if e < 0 then ''-'' else ''+'') @ decimal_digits \<bar>e\<bar>
                     in if k = 1 then ds @ ''e'' @ exponent
                        else take 1 ds @ ''.'' @ drop 1 ds @ ''e'' @ exponent))"

text \<open>
  \<^verbatim>\<open>x.toFixed(f)\<close> for a number below \<open>10\<^sup>2\<^sup>1\<close>: the integer \<open>n\<close> for which
  \<open>n / 10\<^sup>f\<close> is closest to \<open>\<bar>x\<bar>\<close> (the larger one of two), printed with exactly
  \<open>f\<close> digits after the point.
\<close>

definition toFixed :: "nat \<Rightarrow> rat \<Rightarrow> string" where
  "toFixed f x =
     (let n = nat \<lfloor>\<bar>x\<bar> * 10 ^ f + 1 / 2\<rfloor>;
          m = digits n;
          s = replicate (Suc f - length m) (CHR ''0'') @ m;
          k = length s - f
      in (if x < 0 then ''-'' else '''')
         @ (if f = 0 then s else take k s @ ''.'' @ drop k s))"

subsection \<open>Conversion to text\<close>

definition nl :: string where
  "nl = [CHR 0x0A]"

fun join :: "string \<Rightarrow> string list \<Rightarrow> string" where
  "join sep [] = []"
| "join sep [x] = x"
| "join sep (x # y # ys) = x @ sep @ join sep (y # ys)"

text \<open>
  \<^verbatim>\<open>`${v}`\<close> and \<^verbatim>\<open>String(v)\<close>. An array prints its elements separated by commas,
  \<^verbatim>\<open>null\<close> and \<^verbatim>\<open>undefined\<close> elements as nothing.
\<close>

fun to_string :: "jsval \<Rightarrow> string"
  and elements_to_strings :: "jsval list \<Rightarrow> string list" where
  "to_string JUndefined = ''undefined''"
| "to_string JNull = ''null''"
| "to_string (JBool b) = (if b then ''true'' else ''false'')"
| "to_string (JNum n) = number_to_string n"
| "to_string (JStr s) = s"
| "to_string (JArr xs) = join '','' (elements_to_strings xs)"
| "to_string (JObj kvs) = ''[object Object]''"
| "elements_to_strings [] = []"
| "elements_to_strings (x # xs) =
     (if nullish x then [] else to_string x) # elements_to_strings xs"

subsection \<open>\<^verbatim>\<open>JSON.stringify\<close>\<close>

definition hex_char :: "nat \<Rightarrow> char" where
  "hex_char d = (if d < 10 then char_of (48 + d) else char_of (87 + d))"

definition json_escape :: "char \<Rightarrow> string" where
  "json_escape c =
     (let n = (of_char c :: nat) in
      if c = CHR 0x22 then [CHR 0x5C, CHR 0x22]
      else if c = CHR 0x5C then [CHR 0x5C, CHR 0x5C]
      else if n = 8 then [CHR 0x5C, CHR ''b'']
      else if n = 9 then [CHR 0x5C, CHR ''t'']
      else if n = 10 then [CHR 0x5C, CHR ''n'']
      else if n = 12 then [CHR 0x5C, CHR ''f'']
      else if n = 13 then [CHR 0x5C, CHR ''r'']
      else if n < 32 then [CHR 0x5C, CHR ''u'', CHR ''0'', CHR ''0'', hex_char (n div 16), hex_char (n mod 16)]
      else [c])"

definition json_quote :: "string \<Rightarrow> string" where
  "json_quote s = [CHR 0x22] @ concat (map json_escape s) @ [CHR 0x22]"

text \<open>
  The text of a value inside a document: \<^verbatim>\<open>undefined\<close> is \<^verbatim>\<open>null\<close> in an array
  and its property is left out of an object.
\<close>

fun JSON_stringify :: "jsval \<Rightarrow> string"
  and json_elements :: "jsval list \<Rightarrow> string list"
  and json_members :: "(string \<times> jsval) list \<Rightarrow> string list" where
  "JSON_stringify JUndefined = ''null''"
| "JSON_stringify JNull = ''null''"
| "JSON_stringify (JBool b) = (if b then ''true'' else ''false'')"
| "JSON_stringify (JNum n) = number_to_string n"
| "JSON_stringify (JStr s) = json_quote s"
| "JSON_stringify (JArr xs) = ''['' @ join '','' (json_elements xs) @ '']''"
| "JSON_stringify (JObj kvs) = ''{'' @ join '','' (json_members kvs) @ ''}''"
| "json_elements [] = []"
| "json_elements (x # xs) = JSON_stringify x # json_elements xs"
| "json_members [] = []"
| "json_members (kv # kvs) =
     (if snd kv = JUndefined then json_members kvs
      else (json_quote (fst kv) @ '':'' @ JSON_stringify (snd kv)) # json_members kvs)"

section \<open>Utility functions\<close>

text \<open>
  \<^verbatim>\<open>truncateText(text, maxLength = 50)\<close>. \<^verbatim>\<open>substring(0, n)\<close> takes the first
  \<open>n\<close> code units, none when \<open>n\<close> is negative.
\<close>

definition truncateText :: "jsval \<Rightarrow> int \<Rightarrow> string" where
  "truncateText text maxLength =
     (if \<not> truthy text then ''''
      else let t = (case text of JStr s \<Rightarrow> s | v \<Rightarrow> JSON_stringify v)
           in if int (length t) \<le> maxLength then t
              else take (nat (maxLength - 3)) t @ ''...'')"

text \<open>
  \<^verbatim>\<open>formatDuration(ms)\<close>, on a whole number of milliseconds (below \<open>2\<^sup>5\<^sup>3\<close>, so that
  it is a double). The quotients are doubles; \<^verbatim>\<open>ms % 60000\<close> is exact.
\<close>

definition formatDuration :: "int \<Rightarrow> string" where
  "formatDuration ms =
     (if ms < 1000 then number_to_string (of_int ms) @ ''ms''
      else if ms < 60000 then toFixed 1 (js_divide (of_int ms) 1000) @ ''s''
      else let minutes = \<lfloor>js_divide (of_int ms) 60000\<rfloor>;
               seconds = \<lfloor>js_divide (of_int (ms mod 60000)) 1000\<rfloor>
           in number_to_string (of_int minutes) @ ''m '' @ number_to_string (of_int seconds) @ ''s'')"

text \<open>
  A field that the script uses as a number: missing (\<^verbatim>\<open>undefined\<close>), \<^verbatim>\<open>null\<close> or a
  number. The type leaves out the responses that carry anything else there.
\<close>

datatype jsnum_opt = NumUndefined | NumNull | Num rat

fun formatCost :: "jsnum_opt \<Rightarrow> string" where
  "formatCost NumUndefined = ''N/A''"
| "formatCost NumNull = ''N/A''"
| "formatCost (Num cost) = ''$'' @ toFixed 4 cost"

section \<open>Configuration\<close>

definition endsWith :: "string \<Rightarrow> string \<Rightarrow> bool" where
  "endsWith s suffix \<longleftrightarrow>
     length suffix \<le> length s \<and> drop (length s - length suffix) s = suffix"

text \<open>\<^verbatim>\<open>s.replace(/\/$/, '')\<close>: one slash at the very end is removed.\<close>

definition remove_trailing_slash :: "string \<Rightarrow> string" where
  "remove_trailing_slash s = (if s \<noteq> [] \<and> last s = CHR ''/'' then butlast s else s)"

text \<open>
  The value of \<^verbatim>\<open>API_BASE_URL\<close> once the module has been loaded, from the environment
  variable \<^verbatim>\<open>TRAVRSE_API_URL\<close> (\<open>None\<close> when it is not set).
\<close>

definition API_BASE_URL :: "string option \<Rightarrow> string" where
  "API_BASE_URL env =
     (let url = (case env of None \<Rightarrow> ''https://api.travrse.ai''
                 | Some v \<Rightarrow> if v \<noteq> [] then v else ''https://api.travrse.ai'');
          url = (if endsWith url ''/api'' then take (length url - 4) url else url)
      in remove_trailing_slash url)"

definition API_VERSION :: string where
  "API_VERSION = ''v1''"

definition request_url :: "string option \<Rightarrow> string \<Rightarrow> string" where
  "request_url env endpoint = API_BASE_URL env @ ''/'' @ API_VERSION @ endpoint"

section \<open>API functions\<close>

text \<open>
  What the server does with a request is an input of the model: \<^verbatim>\<open>fetch\<close> or the
  parsing of the body fails, or the response has a status that is not ok (with its
  status, status text and body), or it is ok with a parsed body.
\<close>

datatype 'a http_response = Rejected | NotOk nat string string | Ok 'a

definition makeRequest :: "'a http_response \<Rightarrow> error + 'a" where
  "makeRequest response =
     (case response of
        Rejected \<Rightarrow> Inl FetchFailed
      | NotOk status statusText errorText \<Rightarrow> Inl (RequestFailed status statusText errorText)
      | Ok body \<Rightarrow> Inr body)"

fun normalizeSubmissions :: "jsval list \<Rightarrow> error + jsval list" where
  "normalizeSubmissions [] = Inr []"
| "normalizeSubmissions (s # ss) =
     (if nullish s then Inl TypeError
      else case normalizeSubmissions ss of
             Inl e \<Rightarrow> Inl e
           | Inr ns \<Rightarrow> Inr (JObj
               [(''eval_name'', js_or (field s ''eval_name'') (field s ''evalName'')),
                (''batch_execution_id'',
                   js_or (field s ''batch_execution_id'') (field s ''batchExecutionId'')),
                (''status'', field s ''status''),
                (''queue_name'', js_or (field s ''queue_name'') (field s ''queueName''))] # ns))"

text \<open>
  \<^verbatim>\<open>submitEval\<close>, from the server's answer to the POST. \<^verbatim>\<open>submissions.map\<close> throws
  a TypeError when \<^verbatim>\<open>submissions\<close> is no array.
\<close>

definition submitEval :: "jsval http_response \<Rightarrow> error + jsval" where
  "submitEval http =
     (case makeRequest http of
        Inl e \<Rightarrow> Inl e
      | Inr response \<Rightarrow>
          if nullish response then Inl TypeError
          else let evalGroupId = js_or (field response ''eval_group_id'') (field response ''evalGroupId'');
                   totalEvals = js_or (field response ''total_evals'') (field response ''totalEvals'');
                   submissions = js_or (field response ''submissions'') (JArr [])
               in case submissions of
                    JArr ss \<Rightarrow>
                      (case normalizeSubmissions ss of
                         Inl e \<Rightarrow> Inl e
                       | Inr normalizedSubmissions \<Rightarrow> Inr (JObj
                           [(''eval_group_id'', evalGroupId),
                            (''total_evals'', totalEvals),
                            (''submissions'', JArr normalizedSubmissions)]))
                  | _ \<Rightarrow> Inl TypeError)"

text \<open>
  \<^verbatim>\<open>getEvalBatches(status = null)\<close>: the status only adds a query to the URL of the
  request; what comes back is what \<^verbatim>\<open>makeRequest\<close> returns.
\<close>

definition getEvalBatches :: "jsval http_response \<Rightarrow> error + jsval" where
  "getEvalBatches http = makeRequest http"

section \<open>Polling\<close>

text \<open>\<^verbatim>\<open>batchIds.includes(batchId)\<close>: two parsed objects or arrays are never the same.\<close>

fun same_value_zero :: "jsval \<Rightarrow> jsval \<Rightarrow> bool" where
  "same_value_zero (JArr xs) b = False"
| "same_value_zero (JObj kvs) b = False"
| "same_value_zero a b = (a = b)"

definition js_includes :: "jsval list \<Rightarrow> jsval \<Rightarrow> bool" where
  "js_includes xs v = list_ex (\<lambda>x. same_value_zero x v) xs"

text \<open>The callback of \<^verbatim>\<open>batches.filter\<close>, on each element in turn.\<close>

fun filterOurs :: "jsval list \<Rightarrow> jsval list \<Rightarrow> error + jsval list" where
  "filterOurs batchIds [] = Inr []"
| "filterOurs batchIds (b # bs) =
     (if nullish b then Inl TypeError
      else case filterOurs batchIds bs of
             Inl e \<Rightarrow> Inl e
           | Inr rest \<Rightarrow>
               if js_includes batchIds (js_or (field b ''batch_execution_id'') (field b ''batchExecutionId''))
               then Inr (b # rest) else Inr rest)"

text \<open>The body of the \<^verbatim>\<open>try\<close> block up to \<^verbatim>\<open>ourBatches\<close>.\<close>

definition ourBatches :: "jsval list \<Rightarrow> jsval http_response \<Rightarrow> error + jsval list" where
  "ourBatches batchIds http =
     (case getEvalBatches http of
        Inl e \<Rightarrow> Inl e
      | Inr batchesResponse \<Rightarrow>
          if nullish batchesResponse then Inl TypeError
          else case js_or (field batchesResponse ''batches'') (JArr []) of
                 JArr batches \<Rightarrow> filterOurs batchIds batches
               | _ \<Rightarrow> Inl TypeError)"

definition allFinished :: "jsval list \<Rightarrow> bool" where
  "allFinished bs =
     list_all (\<lambda>batch. field batch ''status'' = JStr ''completed''
                      \<or> field batch ''status'' = JStr ''failed'') bs"

text \<open>
  The result of \<^verbatim>\<open>pollForCompletion\<close> with the number of calls of the status
  endpoint made so far. The loop reads the clock (\<^verbatim>\<open>Date.now()\<close>) and calls the
  endpoint once in each round; the rounds the environment offers are a list of clock
  readings and answers, and \<open>Pending\<close> says that the loop has consumed them all and
  goes on. Whatever is thrown inside the \<^verbatim>\<open>try\<close> block is caught, and the next round
  follows after the sleep. \<open>MAX_WAIT_MS\<close> is the configured maximum wait, a whole number
  of milliseconds. What the script writes to the console while it polls is left out.
\<close>

datatype poll_result = Returned "jsval list" nat | Failed error nat | Pending nat

fun poll_loop ::
  "int \<Rightarrow> jsval list \<Rightarrow> int \<Rightarrow> nat \<Rightarrow> (int \<times> jsval http_response) list \<Rightarrow> poll_result" where
  "poll_loop MAX_WAIT_MS batchIds startTime calls [] = Pending calls"
| "poll_loop MAX_WAIT_MS batchIds startTime calls ((now, http) # rounds) =
     (let elapsed = now - startTime in
      if elapsed > MAX_WAIT_MS
      then Failed (MaxWaitExceeded (formatDuration MAX_WAIT_MS)) calls
      else case ourBatches batchIds http of
             Inl e \<Rightarrow> poll_loop MAX_WAIT_MS batchIds startTime (Suc calls) rounds
           | Inr ours \<Rightarrow>
               if allFinished ours then Returned ours (Suc calls)
               else poll_loop MAX_WAIT_MS batchIds startTime (Suc calls) rounds)"

definition pollForCompletion ::
  "int \<Rightarrow> jsval list \<Rightarrow> int \<Rightarrow> (int \<times> jsval http_response) list \<Rightarrow> poll_result" where
  "pollForCompletion MAX_WAIT_MS submissions startTime rounds =
     (if list_ex nullish submissions then Failed TypeError 0
      else poll_loop MAX_WAIT_MS (map (\<lambda>s. field s ''batch_execution_id'') submissions)
             startTime 0 rounds)"

section \<open>Detailed results\<close>

text \<open>
  The body of \<^verbatim>\<open>/eval/{id}/results\<close>, with the fields the script reads under both of
  their names. A field that is missing is \<open>JUndefined\<close> or \<open>NumUndefined\<close>;
  \<open>results_by_record\<close> is \<open>None\<close> when it is missing or \<^verbatim>\<open>null\<close>, else the records
  in the order of \<^verbatim>\<open>Object.keys\<close>, each with its step results.
\<close>

record step_result =
  record_name :: jsval
  recordName :: jsval
  step_name :: jsval
  stepName :: jsval
  step_type :: jsval
  stepType :: jsval
  model_used :: jsval
  modelUsed :: jsval
  duration_ms :: jsval
  durationMs :: jsval
  total_cost :: jsnum_opt
  totalCost :: jsnum_opt
  output_field :: jsval
  outputPreview :: jsval

record result_set =
  eval_name :: jsval
  evalName :: jsval
  results_by_record :: "(string \<times> step_result list) list option"

definition getEvalResults :: "result_set http_response \<Rightarrow> error + result_set" where
  "getEvalResults http = makeRequest http"

text \<open>
  \<^verbatim>\<open>calculateTotalCost\<close>: the inner and the outer loop, with the value of
  \<^verbatim>\<open>totalCost\<close> passed on as \<open>acc\<close>. \<^verbatim>\<open>totalCost += cost\<close> adds two doubles.
\<close>

fun add_step_costs :: "rat \<Rightarrow> step_result list \<Rightarrow> rat" where
  "add_step_costs acc [] = acc"
| "add_step_costs acc (stepResult # stepResults) =
     (let cost = (case total_cost stepResult of
                    Num c \<Rightarrow> c
                  | _ \<Rightarrow> (case totalCost stepResult of Num c \<Rightarrow> c | _ \<Rightarrow> 0))
      in add_step_costs (js_add acc cost) stepResults)"

fun add_record_costs :: "rat \<Rightarrow> (string \<times> step_result list) list \<Rightarrow> rat" where
  "add_record_costs acc [] = acc"
| "add_record_costs acc ((recordId, stepResults) # records) =
     add_record_costs (add_step_costs acc stepResults) records"

definition calculateTotalCost :: "result_set \<Rightarrow> rat" where
  "calculateTotalCost results =
     (case results_by_record results of
        None \<Rightarrow> 0
      | Some records \<Rightarrow> add_record_costs 0 records)"

section \<open>Summary table\<close>

text \<open>
  The cell of the last column: \<^verbatim>\<open>detailedResultsMap\<close> is \<open>None\<close> when the argument is
  \<^verbatim>\<open>undefined\<close> or \<^verbatim>\<open>null\<close>, else the result sets by property key.
\<close>

definition costStr :: "(string \<rightharpoonup> result_set) option \<Rightarrow> jsval \<Rightarrow> string" where
  "costStr detailedResultsMap batch =
     (let batchId = js_or (field batch ''batch_execution_id'') (field batch ''batchExecutionId'');
          totalCost = (case detailedResultsMap of
                         None \<Rightarrow> 0
                       | Some m \<Rightarrow> (case m (to_string batchId) of
                                     None \<Rightarrow> 0
                                   | Some results \<Rightarrow> calculateTotalCost results))
      in if totalCost > 0 then formatCost (Num totalCost) else ''N/A'')"

definition summaryRow :: "(string \<rightharpoonup> result_set) option \<Rightarrow> jsval \<Rightarrow> string" where
  "summaryRow detailedResultsMap batch =
     (let evalName = js_or (js_or (field batch ''eval_name'') (field batch ''evalName'')) (JStr ''N/A'');
          status = field batch ''status'';
          totalRecords = js_or (js_or (field batch ''total_records'') (field batch ''totalRecords'')) (JNum 0);
          processedRecords =
            js_or (js_or (field batch ''processed_records'') (field batch ''processedRecords'')) (JNum 0);
          failedRecords = js_or (js_or (field batch ''failed_records'') (field batch ''failedRecords'')) (JNum 0)
      in ''| '' @ to_string evalName @ '' | '' @ to_string totalRecords @ '' | ''
         @ to_string processedRecords @ '' | '' @ to_string failedRecords @ '' | ''
         @ to_string status @ '' | '' @ costStr detailedResultsMap batch @ '' |'')"

fun summaryRows :: "(string \<rightharpoonup> result_set) option \<Rightarrow> jsval list \<Rightarrow> error + string list" where
  "summaryRows detailedResultsMap [] = Inr []"
| "summaryRows detailedResultsMap (batch # batches) =
     (if nullish batch then Inl TypeError
      else case summaryRows detailedResultsMap batches of
             Inl e \<Rightarrow> Inl e
           | Inr rows \<Rightarrow> Inr (summaryRow detailedResultsMap batch # rows))"

definition generateSummaryTable ::
  "jsval list \<Rightarrow> (string \<rightharpoonup> result_set) option \<Rightarrow> error + string" where
  "generateSummaryTable batches detailedResultsMap =
     (case summaryRows detailedResultsMap batches of
        Inl e \<Rightarrow> Inl e
      | Inr rows \<Rightarrow> Inr (join nl
          ([''## Summary'',
            [],
            ''| Eval Name | Total Records | Processed | Failed | Status | Total Cost |'',
            ''|-----------|---------------|-----------|--------|--------|------------|'']
           @ rows @ [[]])))"

section \<open>Detail tables\<close>

subsection \<open>The markdown renderer\<close>

definition markdownRow :: "step_result \<Rightarrow> string" where
  "markdownRow stepResult =
     (let stepName = js_or (js_or (step_name stepResult) (stepName stepResult)) (JStr ''N/A'');
          stepType = js_or (js_or (step_type stepResult) (stepType stepResult)) (JStr ''N/A'');
          model = js_or (js_or (model_used stepResult) (modelUsed stepResult)) (JStr ''N/A'');
          duration = (if \<not> nullish (duration_ms stepResult) then to_string (duration_ms stepResult)
                      else if \<not> nullish (durationMs stepResult) then to_string (durationMs stepResult)
                      else ''N/A'');
          cost = (case total_cost stepResult of
                    Num c \<Rightarrow> formatCost (Num c)
                  | _ \<Rightarrow> (case totalCost stepResult of Num c \<Rightarrow> formatCost (Num c) | _ \<Rightarrow> ''N/A''));
          preview = truncateText (js_or (output_field stepResult) (outputPreview stepResult)) 40
      in ''| '' @ to_string stepName @ '' | '' @ to_string stepType @ '' | '' @ to_string model
         @ '' | '' @ duration @ '' | '' @ cost @ '' | '' @ preview @ '' |'')"

text \<open>The lines pushed for the records, in the order of the loop.\<close>

fun markdownRecords :: "(string \<times> step_result list) list \<Rightarrow> string list" where
  "markdownRecords [] = []"
| "markdownRecords ((recordId, stepResults) # records) =
     (case stepResults of
        [] \<Rightarrow> markdownRecords records
      | firstResult # _ \<Rightarrow>
          (let recordName = js_or (js_or (record_name firstResult) (recordName firstResult)) (JStr recordId)
           in [''### Record: '' @ to_string recordName,
               [],
               ''| Step Name | Step Type | Model | Duration (ms) | Cost | Output Preview |'',
               ''|-----------|-----------|-------|---------------|------|----------------|'']
              @ map markdownRow stepResults @ [[]] @ markdownRecords records))"

definition generateDetailedResultsMarkdown :: "result_set \<Rightarrow> string" where
  "generateDetailedResultsMarkdown results =
     (let evalName = js_or (js_or (eval_name results) (evalName results)) (JStr ''Unknown'');
          heading = [''## Detailed Results: '' @ to_string evalName, []];
          resultsByRecord = (case results_by_record results of None \<Rightarrow> [] | Some records \<Rightarrow> records)
      in if length resultsByRecord = 0 then join nl (heading @ [''No results found.'', []])
         else join nl (heading @ markdownRecords resultsByRecord))"

subsection \<open>The console renderer\<close>

text \<open>
  \<^verbatim>\<open>displayDetailedResults\<close> returns nothing; its effect is the sequence of its
  \<^verbatim>\<open>console.log\<close> calls, modelled by the list of their arguments. Each call prints its
  argument and a line break.
\<close>

definition consoleRow :: "step_result \<Rightarrow> string" where
  "consoleRow stepResult =
     (let stepName = js_or (js_or (step_name stepResult) (stepName stepResult)) (JStr ''N/A'');
          stepType = js_or (js_or (step_type stepResult) (stepType stepResult)) (JStr ''N/A'');
          model = js_or (js_or (model_used stepResult) (modelUsed stepResult)) (JStr ''N/A'');
          duration = (if \<not> nullish (duration_ms stepResult) then to_string (duration_ms stepResult)
                      else if \<not> nullish (durationMs stepResult) then to_string (durationMs stepResult)
                      else ''N/A'');
          cost = (case total_cost stepResult of
                    Num c \<Rightarrow> formatCost (Num c)
                  | _ \<Rightarrow> (case totalCost stepResult of Num c \<Rightarrow> formatCost (Num c) | _ \<Rightarrow> ''N/A''));
          preview = truncateText (js_or (output_field stepResult) (outputPreview stepResult)) 40
      in ''| '' @ to_string stepName @ '' | '' @ to_string stepType @ '' | '' @ to_string model
         @ '' | '' @ duration @ '' | '' @ cost @ '' | '' @ preview @ '' |'')"

fun consoleRecords :: "(string \<times> step_result list) list \<Rightarrow> string list" where
  "consoleRecords [] = []"
| "consoleRecords ((recordId, stepResults) # records) =
     (case stepResults of
        [] \<Rightarrow> consoleRecords records
      | firstResult # _ \<Rightarrow>
          (let recordName = js_or (js_or (record_name firstResult) (recordName firstResult)) (JStr recordId)
           in [''### Record: '' @ to_string recordName @ nl,
               ''| Step Name | Step Type | Model | Duration (ms) | Cost | Output Preview |'',
               ''|-----------|-----------|-------|---------------|------|----------------|'']
              @ map consoleRow stepResults @ [[]] @ consoleRecords records))"

definition displayDetailedResults :: "result_set \<Rightarrow> string list" where
  "displayDetailedResults results =
     (let evalName = js_or (js_or (eval_name results) (evalName results)) (JStr ''Unknown'');
          heading = [''## Detailed Results: '' @ to_string evalName @ nl];
          resultsByRecord = (case results_by_record results of None \<Rightarrow> [] | Some records \<Rightarrow> records)
      in if length resultsByRecord = 0 then heading @ [''No results found.'' @ nl]
         else heading @ consoleRecords resultsByRecord)"

definition console_text :: "string list \<Rightarrow> string" where
  "console_text logged = concat (map (\<lambda>line. line @ nl) logged)"

section \<open>The specification's notions\<close>

text \<open>
  The cost of one step result as the specification words it: its cost, where a missing
  or \<^verbatim>\<open>null\<close> cost counts as 0. The cost is \<open>total_cost\<close>, or \<open>totalCost\<close> when the
  server names it so.
\<close>

definition step_cost :: "step_result \<Rightarrow> rat" where
  "step_cost stepResult =
     (case total_cost stepResult of
        Num c \<Rightarrow> c
      | _ \<Rightarrow> (case totalCost stepResult of Num c \<Rightarrow> c | _ \<Rightarrow> 0))"

text \<open>
  The additions that start from \<open>acc\<close> and take the costs \<open>cs\<close> one after the other are
  all exact: no sum has to be rounded.
\<close>

fun exact_sums :: "rat \<Rightarrow> rat list \<Rightarrow> bool" where
  "exact_sums acc [] = True"
| "exact_sums acc (c # cs) = (round_double (acc + c) = acc + c \<and> exact_sums (acc + c) cs)"

text \<open>
  The field names of a value, those of the values inside it included, and the canonical
  form of a name: lower-case letters, digits and underscores.
\<close>

fun field_names :: "jsval \<Rightarrow> string list"
  and field_names_list :: "jsval list \<Rightarrow> string list"
  and field_names_members :: "(string \<times> jsval) list \<Rightarrow> string list" where
  "field_names (JArr xs) = field_names_list xs"
| "field_names (JObj kvs) = field_names_members kvs"
| "field_names v = []"
| "field_names_list [] = []"
| "field_names_list (x # xs) = field_names x @ field_names_list xs"
| "field_names_members [] = []"
| "field_names_members (kv # kvs) = fst kv # field_names (snd kv) @ field_names_members kvs"

definition snake_case :: "string \<Rightarrow> bool" where
  "snake_case name = list_all (\<lambda>c. c \<in> set ''abcdefghijklmnopqrstuvwxyz0123456789_'') name"

section \<open>The scenario of the specification\<close>

text \<open>
  One submission \<^verbatim>\<open>b1\<close> of the eval \<^verbatim>\<open>e1\<close>; its batch as the status endpoint
  reports it in a given status; its results, one record with one step of a given cost.
\<close>

definition scenario_submission :: "string \<Rightarrow> jsval" where
  "scenario_submission batchId = JObj
     [(''eval_name'', JStr ''e1''), (''batch_execution_id'', JStr batchId),
      (''status'', JStr ''queued''), (''queue_name'', JUndefined)]"

definition scenario_batch :: "string \<Rightarrow> string \<Rightarrow> jsval" where
  "scenario_batch batchId status = JObj
     [(''batch_execution_id'', JStr batchId), (''eval_name'', JStr ''e1''),
      (''status'', JStr status), (''total_records'', JNum 1),
      (''processed_records'', JNum 1), (''failed_records'', JNum 0)]"

definition scenario_step :: "jsnum_opt \<Rightarrow> step_result" where
  "scenario_step cost =
     \<lparr>record_name = JStr ''first'', recordName = JUndefined,
      step_name = JStr ''answer'', stepName = JUndefined,
      step_type = JStr ''prompt'', stepType = JUndefined,
      model_used = JStr ''m1'', modelUsed = JUndefined,
      duration_ms = JNum 1200, durationMs = JUndefined,
      total_cost = cost, totalCost = NumUndefined,
      output_field = JStr ''ok'', outputPreview = JUndefined\<rparr>"

definition scenario_results :: "jsnum_opt \<Rightarrow> result_set" where
  "scenario_results cost =
     \<lparr>eval_name = JStr ''e1'', evalName = JUndefined,
      results_by_record = Some [(''r1'', [scenario_step cost])]\<rparr>"

section \<open>Output previews\<close>

text \<open>
  C7. A preview string of at most 40 code units comes back unchanged from
  \<^verbatim>\<open>truncateText(text, 40)\<close>; a longer one comes back as its first 37 code units and
  three dots, 40 code units in all.
\<close>

theorem truncateText_preview:
  "(length s \<le> 40 \<longrightarrow> truncateText (JStr s) 40 = s) \<and>
   (length s > 40 \<longrightarrow> truncateText (JStr s) 40 = take 37 s @ ''...''
                       \<and> length (truncateText (JStr s) 40) = 40)"
  by (cases s) (auto simp: truncateText_def Let_def)

theorem truncateText_preview_witness:
  "length ''completed'' \<le> 40 \<and> truncateText (JStr ''completed'') 40 = ''completed''
   \<and> length ''The quick brown fox jumps over the lazy dog'' > 40
   \<and> truncateText (JStr ''The quick brown fox jumps over the lazy dog'') 40
       = ''The quick brown fox jumps over the la...''
   \<and> length (truncateText (JStr ''The quick brown fox jumps over the lazy dog'') 40) = 40"
  using truncateText_preview [of "''completed''"]
    truncateText_preview [of "''The quick brown fox jumps over the lazy dog''"]
  by simp

text \<open>
  C10. \<^verbatim>\<open>truncateText\<close> returns the empty string for every falsy input, whatever the
  limit: the empty string, \<^verbatim>\<open>null\<close>, \<^verbatim>\<open>undefined\<close>, the number 0 and \<^verbatim>\<open>false\<close>.
  A falsy value that is no string is therefore never serialized.
\<close>

theorem truncateText_falsy:
  "(\<not> truthy text \<longrightarrow> truncateText text maxLength = '''')
   \<and> truncateText (JStr '''') maxLength = ''''
   \<and> truncateText JNull maxLength = ''''
   \<and> truncateText JUndefined maxLength = ''''
   \<and> truncateText (JNum 0) maxLength = ''''
   \<and> truncateText (JBool False) maxLength = ''''"
  by (simp add: truncateText_def)

text \<open>The number 0 previews as the empty string although its JSON text is \<^verbatim>\<open>0\<close>.\<close>

theorem truncateText_falsy_witness:
  "\<not> truthy (JNum 0) \<and> truncateText (JNum 0) 40 = '''' \<and> JSON_stringify (JNum 0) = ''0''"
proof -
  have "JSON_stringify (JNum 0) = ''0''" by code_simp
  then show ?thesis using truncateText_falsy [of "JNum 0" 40] by simp
qed

section \<open>Cost aggregation\<close>

lemma add_step_costs_foldl:
  "add_step_costs acc stepResults = foldl js_add acc (map step_cost stepResults)"
  by (induction stepResults arbitrary: acc) (simp_all add: step_cost_def Let_def)

lemma add_record_costs_foldl:
  "add_record_costs acc records = foldl js_add acc (map step_cost (concat (map snd records)))"
  by (induction acc records rule: add_record_costs.induct)
     (simp_all add: add_step_costs_foldl)

lemma foldl_js_add_exact:
  "exact_sums acc cs \<Longrightarrow> foldl js_add acc cs = acc + sum_list cs"
  by (induction cs arbitrary: acc) (simp_all add: js_add_def add.assoc)

text \<open>
  C6. \<^verbatim>\<open>calculateTotalCost\<close> is the sum of the costs of all step results of all
  records of \<open>results_by_record\<close>, a missing or \<^verbatim>\<open>null\<close> cost counting as 0: the costs
  added as doubles one after the other, in the order of the records and of their steps,
  starting from 0. Where no addition has to round, this is the exact sum of the costs.
  The total is 0 when the results map is absent and when it is empty.
\<close>

theorem calculateTotalCost_sum:
  "calculateTotalCost results =
     (case results_by_record results of
        None \<Rightarrow> 0
      | Some records \<Rightarrow> foldl js_add 0 (map step_cost (concat (map snd records))))
   \<and> (results_by_record results = Some records
        \<and> exact_sums 0 (map step_cost (concat (map snd records)))
      \<longrightarrow> calculateTotalCost results = sum_list (map step_cost (concat (map snd records))))
   \<and> calculateTotalCost (results\<lparr>results_by_record := None\<rparr>) = 0
   \<and> calculateTotalCost (results\<lparr>results_by_record := Some []\<rparr>) = 0"
proof -
  have "calculateTotalCost results = sum_list (map step_cost (concat (map snd records)))"
    if "results_by_record results = Some records"
      "exact_sums 0 (map step_cost (concat (map snd records)))"
    using that foldl_js_add_exact [of 0 "map step_cost (concat (map snd records))"]
    by (simp add: calculateTotalCost_def add_record_costs_foldl)
  then show ?thesis
    by (simp add: calculateTotalCost_def add_record_costs_foldl split: option.split)
qed

text \<open>
  The costs 0.1, 0.2 and 0.3, the second one missing under the name \<^verbatim>\<open>total_cost\<close>
  and given as \<^verbatim>\<open>totalCost\<close>, with a \<^verbatim>\<open>null\<close> cost and a record without steps
  between them: the total is the double that prints as 0.6000000000000001, as in the
  script. The costs 0.5 and 0.25 add up without rounding, to 0.75.
\<close>

theorem calculateTotalCost_sum_witness:
  "calculateTotalCost
     \<lparr>eval_name = JStr ''e1'', evalName = JUndefined,
      results_by_record = Some
        [(''r1'', [scenario_step (Num (round_double (1 / 10))), scenario_step NumNull,
                  scenario_step NumUndefined\<lparr>totalCost := Num (round_double (2 / 10))\<rparr>]),
         (''r2'', []),
         (''r3'', [scenario_step (Num (round_double (3 / 10)))])]\<rparr>
   = 5404319552844596 / 9007199254740992
   \<and> number_to_string (5404319552844596 / 9007199254740992) = ''0.6000000000000001''
   \<and> exact_sums 0 [1 / 2, 1 / 4]
   \<and> calculateTotalCost
     \<lparr>eval_name = JStr ''e1'', evalName = JUndefined,
      results_by_record = Some
        [(''r1'', [scenario_step (Num (1 / 2))]), (''r2'', [scenario_step (Num (1 / 4))])]\<rparr>
   = 3 / 4"
proof -
  let ?a = "\<lparr>eval_name = JStr ''e1'', evalName = JUndefined,
      results_by_record = Some
        [(''r1'', [scenario_step (Num (round_double (1 / 10))), scenario_step NumNull,
                  scenario_step NumUndefined\<lparr>totalCost := Num (round_double (2 / 10))\<rparr>]),
         (''r2'', []),
         (''r3'', [scenario_step (Num (round_double (3 / 10)))])]\<rparr>"
  let ?b = "\<lparr>eval_name = JStr ''e1'', evalName = JUndefined,
      results_by_record = Some
        [(''r1'', [scenario_step (Num (1 / 2))]), (''r2'', [scenario_step (Num (1 / 4))])]\<rparr>"
  have fold: "foldl js_add 0 [round_double (1 / 10), 0, round_double (2 / 10), round_double (3 / 10)]
      = 5404319552844596 / 9007199254740992"
    by code_simp
  have printed: "number_to_string (5404319552844596 / 9007199254740992) = ''0.6000000000000001''"
    by code_simp
  have exact: "exact_sums 0 [1 / 2, 1 / 4]"
    by code_simp
  have a: "calculateTotalCost ?a = 5404319552844596 / 9007199254740992"
    using calculateTotalCost_sum [of ?a] fold
    by (simp add: step_cost_def scenario_step_def)
  have b: "calculateTotalCost ?b = 3 / 4"
    using calculateTotalCost_sum [of ?b "[(''r1'', [scenario_step (Num (1 / 2))]),
        (''r2'', [scenario_step (Num (1 / 4))])]"] exact
    by (simp add: step_cost_def scenario_step_def)
  from a printed exact b show ?thesis by blast
qed

section \<open>The base URL\<close>

lemma endsWith_append: "endsWith (p @ suffix) suffix"
  by (simp add: endsWith_def)

lemma not_endsWith_last:
  "s \<noteq> [] \<Longrightarrow> suffix \<noteq> [] \<Longrightarrow> last s \<noteq> last suffix \<Longrightarrow> \<not> endsWith s suffix"
  unfolding endsWith_def
  by (metis last_drop length_greater_0_conv diff_less)

text \<open>
  What the two steps of the normalization do. A configured value that ends in
  \<^verbatim>\<open>/api\<close> loses these four characters and then one slash before them, if there is
  one; any other value loses one slash at its end, if there is one, and is else used as
  it is. A value that is not set or empty gives the default.
\<close>

lemma API_BASE_URL_cases:
  "(p = [] \<or> last p \<noteq> CHR ''/'' \<longrightarrow> API_BASE_URL (Some (p @ ''/api'')) = p)
   \<and> API_BASE_URL (Some (p @ ''//api'')) = p
   \<and> API_BASE_URL (Some (p @ ''/'')) = p
   \<and> (v \<noteq> [] \<and> \<not> endsWith v ''/api'' \<and> last v \<noteq> CHR ''/'' \<longrightarrow> API_BASE_URL (Some v) = v)
   \<and> API_BASE_URL None = ''https://api.travrse.ai''
   \<and> API_BASE_URL (Some []) = ''https://api.travrse.ai''"
proof -
  have a: "endsWith (p @ ''/api'') ''/api''" by (rule endsWith_append)
  have 1: "p = [] \<or> last p \<noteq> CHR ''/'' \<longrightarrow> API_BASE_URL (Some (p @ ''/api'')) = p"
    using a by (auto simp: API_BASE_URL_def remove_trailing_slash_def)
  have b: "endsWith (p @ ''//api'') ''/api''"
    using endsWith_append [of "p @ ''/''" "''/api''"] by simp
  have 2: "API_BASE_URL (Some (p @ ''//api'')) = p"
    using b by (simp add: API_BASE_URL_def remove_trailing_slash_def)
  have c: "\<not> endsWith (p @ ''/'') ''/api''"
    by (rule not_endsWith_last) simp_all
  have 3: "API_BASE_URL (Some (p @ ''/'')) = p"
    using c by (simp add: API_BASE_URL_def remove_trailing_slash_def)
  have 4: "v \<noteq> [] \<and> \<not> endsWith v ''/api'' \<and> last v \<noteq> CHR ''/'' \<longrightarrow> API_BASE_URL (Some v) = v"
    by (simp add: API_BASE_URL_def remove_trailing_slash_def)
  have d: "\<not> endsWith ''https://api.travrse.ai'' ''/api''"
    by (simp add: endsWith_def)
  have 5: "API_BASE_URL None = ''https://api.travrse.ai''"
    using d by (simp add: API_BASE_URL_def remove_trailing_slash_def)
  have 6: "API_BASE_URL (Some []) = ''https://api.travrse.ai''"
    using d by (simp add: API_BASE_URL_def remove_trailing_slash_def)
  from 1 2 3 4 5 6 show ?thesis by blast
qed

lemma API_BASE_URL_examples:
  "API_BASE_URL (Some ''http://localhost:8787/api'') = ''http://localhost:8787''
   \<and> API_BASE_URL (Some ''http://localhost:8787/api/'') = ''http://localhost:8787/api''
   \<and> API_BASE_URL (Some ''http://localhost:8787'') = ''http://localhost:8787''"
proof -
  have "\<not> endsWith ''http://localhost:8787'' ''/api''" by (simp add: endsWith_def)
  then show ?thesis
    using API_BASE_URL_cases [of "''http://localhost:8787''" "''http://localhost:8787''"]
      API_BASE_URL_cases [of "''http://localhost:8787/api''" "''http://localhost:8787''"]
    by simp
qed

text \<open>
  C8. The claim is that the base URL used for the requests has a trailing \<^verbatim>\<open>/api\<close>
  segment and a trailing slash removed, for a value that ends in \<^verbatim>\<open>/api/\<close> as well.
  The script tests for \<^verbatim>\<open>/api\<close> before it removes the slash, so that such a value
  keeps its \<^verbatim>\<open>/api\<close>, and the requests go to \<^verbatim>\<open>/api/v1\<close>.
\<close>

theorem API_BASE_URL_api_slash_keeps_api:
  "API_BASE_URL (Some ''http://localhost:8787/api/'') = ''http://localhost:8787/api''
   \<and> endsWith (API_BASE_URL (Some ''http://localhost:8787/api/'')) ''/api''
   \<and> request_url (Some ''http://localhost:8787/api/'') ''/eval/submit''
     = ''http://localhost:8787/api/v1/eval/submit''
   \<and> request_url (Some ''http://localhost:8787/api'') ''/eval/submit''
     = ''http://localhost:8787/v1/eval/submit''"
  by (simp add: request_url_def API_VERSION_def API_BASE_URL_def remove_trailing_slash_def
      endsWith_def)

section \<open>The two renderers of the detail tables\<close>

lemma consoleRow_markdownRow: "consoleRow = markdownRow"
  by (rule ext) (simp add: consoleRow_def markdownRow_def)

lemma join_nl_lines: "ls \<noteq> [] \<Longrightarrow> join nl ls @ nl = concat (map (\<lambda>l. l @ nl) ls)"
  by (induction nl ls rule: join.induct) simp_all

lemma console_text_append: "console_text (xs @ ys) = console_text xs @ console_text ys"
  by (simp add: console_text_def)

lemma console_text_records:
  "console_text (consoleRecords records) = concat (map (\<lambda>l. l @ nl) (markdownRecords records))"
proof (induction records rule: consoleRecords.induct)
  case 1
  then show ?case by (simp add: console_text_def)
next
  case (2 recordId stepResults records)
  then show ?case
    by (cases stepResults)
       (simp_all add: console_text_def Let_def consoleRow_markdownRow)
qed

text \<open>
  C9. For every result set, what \<^verbatim>\<open>displayDetailedResults\<close> prints on the console is
  the text of \<^verbatim>\<open>generateDetailedResultsMarkdown\<close> followed by one line break: the same
  headings and the same table rows in the same order. The rows of both are formatted
  alike.
\<close>

theorem renderers_in_sync:
  "console_text (displayDetailedResults results) = generateDetailedResultsMarkdown results @ nl
   \<and> map consoleRow stepResults = map markdownRow stepResults"
proof -
  have "console_text (displayDetailedResults results) = generateDetailedResultsMarkdown results @ nl"
    using console_text_records [of "case results_by_record results of None \<Rightarrow> [] | Some records \<Rightarrow> records"]
    by (simp add: displayDetailedResults_def generateDetailedResultsMarkdown_def Let_def
        join_nl_lines console_text_append)
       (simp add: console_text_def)
  then show ?thesis by (simp add: consoleRow_markdownRow)
qed

text \<open>The detail table of the scenario, as both renderers give it.\<close>

theorem renderers_in_sync_witness:
  "generateDetailedResultsMarkdown (scenario_results (Num (round_double (123 / 10000))))
   = join nl
       [''## Detailed Results: e1'', [],
        ''### Record: first'', [],
        ''| Step Name | Step Type | Model | Duration (ms) | Cost | Output Preview |'',
        ''|-----------|-----------|-------|---------------|------|----------------|'',
        ''| answer | prompt | m1 | 1200 | $0.0123 | ok |'', []]
   \<and> console_text (displayDetailedResults (scenario_results (Num (round_double (123 / 10000)))))
     = join nl
       [''## Detailed Results: e1'', [],
        ''### Record: first'', [],
        ''| Step Name | Step Type | Model | Duration (ms) | Cost | Output Preview |'',
        ''|-----------|-----------|-------|---------------|------|----------------|'',
        ''| answer | prompt | m1 | 1200 | $0.0123 | ok |'', []] @ nl"
proof -
  have md: "generateDetailedResultsMarkdown (scenario_results (Num (round_double (123 / 10000))))
   = join nl
       [''## Detailed Results: e1'', [],
        ''### Record: first'', [],
        ''| Step Name | Step Type | Model | Duration (ms) | Cost | Output Preview |'',
        ''|-----------|-----------|-------|---------------|------|----------------|'',
        ''| answer | prompt | m1 | 1200 | $0.0123 | ok |'', []]"
    by code_simp
  show ?thesis
    using renderers_in_sync [of "scenario_results (Num (round_double (123 / 10000)))" "[]"]
    by (simp only: md)
qed

section \<open>The cost column of the summary table\<close>

lemma digit_chars: "list_all (\<lambda>d. digit_char d \<in> set ''0123456789'') [0..<10]"
  by code_simp

lemma digit_char_digit: "d < 10 \<Longrightarrow> digit_char d \<in> set ''0123456789''"
  using digit_chars by (simp only: list_all_iff set_upt) simp

lemma digits_digit: "set (digits n) \<subseteq> set ''0123456789''"
proof (induction n rule: digits.induct)
  case (1 n)
  show ?case
  proof (cases "n < 10")
    case True
    then show ?thesis using digit_char_digit [of n] by (subst digits.simps) simp
  next
    case False
    have "n mod 10 < 10" by simp
    from digit_char_digit [OF this] 1 [OF False] False show ?thesis
      by (subst digits.simps) simp
  qed
qed

text \<open>\<^verbatim>\<open>toFixed(4)\<close> gives a sign, digits, a point and four digits.\<close>

lemma toFixed_four:
  "\<exists>whole frac. toFixed 4 x = (if x < 0 then ''-'' else []) @ whole @ ''.'' @ frac
      \<and> whole \<noteq> [] \<and> length frac = 4 \<and> set (whole @ frac) \<subseteq> set ''0123456789''"
proof -
  define m where "m = digits (nat \<lfloor>\<bar>x\<bar> * 10 ^ 4 + 1 / 2\<rfloor>)"
  define s where "s = replicate (Suc 4 - length m) (CHR ''0'') @ m"
  have len: "length s \<ge> 5" by (simp add: s_def)
  have "set m \<subseteq> set ''0123456789''" unfolding m_def by (rule digits_digit)
  then have dig: "set s \<subseteq> set ''0123456789''" by (auto simp: s_def)
  have "toFixed 4 x
          = (if x < 0 then ''-'' else []) @ take (length s - 4) s @ ''.'' @ drop (length s - 4) s"
    by (simp add: toFixed_def Let_def m_def s_def)
  moreover have "length (drop (length s - 4) s) = 4" using len by simp
  moreover have "take (length s - 4) s \<noteq> []" using len by auto
  moreover have "set (take (length s - 4) s @ drop (length s - 4) s) \<subseteq> set ''0123456789''"
    using dig by simp
  ultimately show ?thesis by blast
qed

lemma formatCost_shape:
  assumes "0 \<le> c"
  shows "\<exists>whole frac. formatCost (Num c) = ''$'' @ whole @ ''.'' @ frac
      \<and> whole \<noteq> [] \<and> length frac = 4 \<and> set (whole @ frac) \<subseteq> set ''0123456789''"
proof -
  from toFixed_four [of c] assms obtain whole frac where
    "toFixed 4 c = whole @ ''.'' @ frac" "whole \<noteq> []" "length frac = 4"
    "set (whole @ frac) \<subseteq> set ''0123456789''"
    by auto
  then have "formatCost (Num c) = ''$'' @ whole @ ''.'' @ frac \<and> whole \<noteq> [] \<and> length frac = 4
      \<and> set (whole @ frac) \<subseteq> set ''0123456789''"
    by simp
  then show ?thesis by blast
qed

lemma summaryRows_map:
  "\<not> list_ex nullish batches \<Longrightarrow> summaryRows dm batches = Inr (map (summaryRow dm) batches)"
  by (induction batches) simp_all

lemma scenario_key:
  "to_string (js_or (field (scenario_batch ''b1'' status) ''batch_execution_id'')
                    (field (scenario_batch ''b1'' status) ''batchExecutionId'')) = ''b1''"
  by (simp add: scenario_batch_def js_or_def)

lemma scenario_total: "calculateTotalCost (scenario_results (Num c)) = js_add 0 c"
  by (simp add: calculateTotalCost_def scenario_results_def scenario_step_def)

text \<open>
  C4, as the script has it. The table has one row for each batch, in their order, and
  the row ends with the cost cell. For a batch whose result set was fetched, the cell is
  the aggregated cost as a dollar sign, digits, a point and four digits when that cost
  is greater than 0, and \<^verbatim>\<open>N/A\<close> when it is 0 or less. It is \<^verbatim>\<open>N/A\<close> as well when
  no result set was fetched for the batch.
\<close>

theorem summary_cost_cell:
  "(m (to_string (js_or (field batch ''batch_execution_id'') (field batch ''batchExecutionId'')))
      = Some results \<longrightarrow>
      (0 < calculateTotalCost results \<longrightarrow>
         costStr (Some m) batch = ''$'' @ toFixed 4 (calculateTotalCost results)
         \<and> (\<exists>whole frac. costStr (Some m) batch = ''$'' @ whole @ ''.'' @ frac
               \<and> whole \<noteq> [] \<and> length frac = 4 \<and> set (whole @ frac) \<subseteq> set ''0123456789''))
      \<and> (calculateTotalCost results \<le> 0 \<longrightarrow> costStr (Some m) batch = ''N/A''))
   \<and> (m (to_string (js_or (field batch ''batch_execution_id'') (field batch ''batchExecutionId'')))
      = None \<longrightarrow> costStr (Some m) batch = ''N/A'')
   \<and> costStr None batch = ''N/A''
   \<and> (\<exists>cells. summaryRow dm batch = cells @ '' | '' @ costStr dm batch @ '' |'')
   \<and> (\<not> list_ex nullish batches \<longrightarrow>
        generateSummaryTable batches dm = Inr (join nl
          ([''## Summary'', [],
            ''| Eval Name | Total Records | Processed | Failed | Status | Total Cost |'',
            ''|-----------|---------------|-----------|--------|--------|------------|'']
           @ map (summaryRow dm) batches @ [[]])))"
proof -
  let ?key = "to_string (js_or (field batch ''batch_execution_id'') (field batch ''batchExecutionId''))"
  let ?total = "calculateTotalCost results"
  have row: "\<exists>cells. summaryRow dm batch = cells @ '' | '' @ costStr dm batch @ '' |''"
    unfolding summaryRow_def Let_def
    by (metis append.assoc)
  have pos: "costStr (Some m) batch = formatCost (Num ?total)"
    if "m ?key = Some results" "0 < ?total"
    using that by (simp add: costStr_def Let_def)
  have shape: "\<exists>whole frac. costStr (Some m) batch = ''$'' @ whole @ ''.'' @ frac
      \<and> whole \<noteq> [] \<and> length frac = 4 \<and> set (whole @ frac) \<subseteq> set ''0123456789''"
    if "m ?key = Some results" "0 < ?total"
    using pos [OF that] formatCost_shape [of ?total] that(2) by simp
  have zero: "costStr (Some m) batch = ''N/A''" if "m ?key = Some results" "?total \<le> 0"
    using that by (simp add: costStr_def Let_def)
  have absent: "costStr (Some m) batch = ''N/A''" if "m ?key = None"
    using that by (simp add: costStr_def Let_def)
  have none: "costStr None batch = ''N/A''"
    by (simp add: costStr_def Let_def)
  have table: "generateSummaryTable batches dm = Inr (join nl
          ([''## Summary'', [],
            ''| Eval Name | Total Records | Processed | Failed | Status | Total Cost |'',
            ''|-----------|---------------|-----------|--------|--------|------------|'']
           @ map (summaryRow dm) batches @ [[]]))"
    if "\<not> list_ex nullish batches"
    using that by (simp add: generateSummaryTable_def summaryRows_map)
  from row pos shape zero absent none table show ?thesis
    by simp
qed

text \<open>The scenario of the specification: one step that costs 0.0123.\<close>

theorem summary_cost_cell_witness:
  "(Map.empty(''b1'' \<mapsto> scenario_results (Num (round_double (123 / 10000)))))
     (to_string (js_or (field (scenario_batch ''b1'' ''completed'') ''batch_execution_id'')
                       (field (scenario_batch ''b1'' ''completed'') ''batchExecutionId'')))
   = Some (scenario_results (Num (round_double (123 / 10000))))
   \<and> 0 < calculateTotalCost (scenario_results (Num (round_double (123 / 10000))))
   \<and> costStr (Some (Map.empty(''b1'' \<mapsto> scenario_results (Num (round_double (123 / 10000))))))
        (scenario_batch ''b1'' ''completed'')
     = ''$0.0123''"
proof -
  let ?rs = "scenario_results (Num (round_double (123 / 10000)))"
  let ?b = "scenario_batch ''b1'' ''completed''"
  have key: "(Map.empty(''b1'' \<mapsto> ?rs))
      (to_string (js_or (field ?b ''batch_execution_id'') (field ?b ''batchExecutionId''))) = Some ?rs"
    by (simp add: scenario_key)
  have "0 < js_add 0 (round_double (123 / 10000))"
    by code_simp
  then have pos: "0 < calculateTotalCost ?rs"
    by (simp only: scenario_total)
  have fmt: "toFixed 4 (js_add 0 (round_double (123 / 10000))) = ''0.0123''"
    by code_simp
  from summary_cost_cell [of "Map.empty(''b1'' \<mapsto> ?rs)" ?b ?rs] key pos
  have "costStr (Some (Map.empty(''b1'' \<mapsto> ?rs))) ?b = ''$'' @ toFixed 4 (calculateTotalCost ?rs)"
    by blast
  then have "costStr (Some (Map.empty(''b1'' \<mapsto> ?rs))) ?b = ''$0.0123''"
    by (simp only: scenario_total fmt) simp
  with key pos show ?thesis by blast
qed

text \<open>
  C4 as the specification states it fails: the result set of the batch was fetched and
  its only step has the cost 0, and the cell is \<^verbatim>\<open>N/A\<close>.
\<close>

theorem summary_zero_cost_counterexample:
  "generateSummaryTable [scenario_batch ''b1'' ''completed'']
     (Some (Map.empty(''b1'' \<mapsto> scenario_results (Num 0))))
   = Inr (join nl
       [''## Summary'', [],
        ''| Eval Name | Total Records | Processed | Failed | Status | Total Cost |'',
        ''|-----------|---------------|-----------|--------|--------|------------|'',
        ''| e1 | 1 | 1 | 0 | completed | N/A |'', []])"
  by code_simp

section \<open>Field names in what the API functions return\<close>

lemma normalizeSubmissions_shape:
  "normalizeSubmissions ss = Inr ns \<Longrightarrow>
   list_all (\<lambda>n. \<exists>a b c d. n = JObj [(''eval_name'', a), (''batch_execution_id'', b),
                                        (''status'', c), (''queue_name'', d)]) ns"
  by (induction ss arbitrary: ns) (auto split: if_splits sum.splits)

text \<open>
  C2, as the script has it. What \<^verbatim>\<open>submitEval\<close> returns has the fields
  \<^verbatim>\<open>eval_group_id\<close>, \<^verbatim>\<open>total_evals\<close> and \<^verbatim>\<open>submissions\<close>, and each submission the
  fields \<^verbatim>\<open>eval_name\<close>, \<^verbatim>\<open>batch_execution_id\<close>, \<^verbatim>\<open>status\<close> and \<^verbatim>\<open>queue_name\<close>,
  whatever names the server used. \<^verbatim>\<open>getEvalBatches\<close> and \<^verbatim>\<open>getEvalResults\<close> return
  the body of a successful response as it is.
\<close>

theorem api_results:
  "(submitEval http = Inr v \<longrightarrow>
      (\<exists>g t ns. v = JObj [(''eval_group_id'', g), (''total_evals'', t), (''submissions'', JArr ns)]
         \<and> list_all (\<lambda>n. \<exists>a b c d. n = JObj [(''eval_name'', a), (''batch_execution_id'', b),
                                              (''status'', c), (''queue_name'', d)]) ns))
   \<and> getEvalBatches (Ok body) = Inr body
   \<and> getEvalResults (Ok results) = Inr results"
  by (auto simp: submitEval_def getEvalBatches_def getEvalResults_def makeRequest_def Let_def
      split: sum.splits if_splits jsval.splits http_response.splits
      dest: normalizeSubmissions_shape)

theorem api_results_witness:
  "submitEval (Ok (JObj [(''evalGroupId'', JStr ''g1''), (''totalEvals'', JNum 1),
       (''submissions'', JArr [JObj [(''evalName'', JStr ''e1''), (''batchExecutionId'', JStr ''b1''),
                                     (''status'', JStr ''queued''), (''queueName'', JStr ''q'')]])]))
   = Inr (JObj [(''eval_group_id'', JStr ''g1''), (''total_evals'', JNum 1),
       (''submissions'', JArr [JObj [(''eval_name'', JStr ''e1''), (''batch_execution_id'', JStr ''b1''),
                                     (''status'', JStr ''queued''), (''queue_name'', JStr ''q'')]])])
   \<and> (\<exists>g t ns. JObj [(''eval_group_id'', JStr ''g1''), (''total_evals'', JNum 1),
       (''submissions'', JArr [JObj [(''eval_name'', JStr ''e1''), (''batch_execution_id'', JStr ''b1''),
                                     (''status'', JStr ''queued''), (''queue_name'', JStr ''q'')]])]
         = JObj [(''eval_group_id'', g), (''total_evals'', t), (''submissions'', JArr ns)])
   \<and> getEvalBatches (Ok (scenario_batch ''b1'' ''running'')) = Inr (scenario_batch ''b1'' ''running'')
   \<and> getEvalResults (Ok (scenario_results NumNull)) = Inr (scenario_results NumNull)"
proof -
  let ?http = "Ok (JObj [(''evalGroupId'', JStr ''g1''), (''totalEvals'', JNum 1),
       (''submissions'', JArr [JObj [(''evalName'', JStr ''e1''), (''batchExecutionId'', JStr ''b1''),
                                     (''status'', JStr ''queued''), (''queueName'', JStr ''q'')]])])"
  let ?v = "JObj [(''eval_group_id'', JStr ''g1''), (''total_evals'', JNum 1),
       (''submissions'', JArr [JObj [(''eval_name'', JStr ''e1''), (''batch_execution_id'', JStr ''b1''),
                                     (''status'', JStr ''queued''), (''queue_name'', JStr ''q'')]])]"
  have h: "submitEval ?http = Inr ?v"
    by (simp add: submitEval_def makeRequest_def js_or_def)
  from api_results [of ?http ?v "scenario_batch ''b1'' ''running''" "scenario_results NumNull"] h
  show ?thesis by blast
qed

text \<open>
  C2 as the specification states it fails: a list of batches that the server sends with
  camelCase names comes back from \<^verbatim>\<open>getEvalBatches\<close> with these names.
\<close>

theorem getEvalBatches_camelCase_counterexample:
  "getEvalBatches (Ok (JObj [(''batches'', JArr
       [JObj [(''batchExecutionId'', JStr ''b1''), (''status'', JStr ''completed'')]])]))
   = Inr (JObj [(''batches'', JArr
       [JObj [(''batchExecutionId'', JStr ''b1''), (''status'', JStr ''completed'')]])])
   \<and> field_names (JObj [(''batches'', JArr
       [JObj [(''batchExecutionId'', JStr ''b1''), (''status'', JStr ''completed'')]])])
     = [''batches'', ''batchExecutionId'', ''status'']
   \<and> \<not> snake_case ''batchExecutionId''"
  by (simp add: getEvalBatches_def makeRequest_def snake_case_def)

section \<open>The values of normalized fields\<close>

lemma normalizeSubmissions_nth:
  "normalizeSubmissions ss = Inr ns \<Longrightarrow> i < length ss \<Longrightarrow>
   ns ! i = JObj
     [(''eval_name'', js_or (field (ss ! i) ''eval_name'') (field (ss ! i) ''evalName'')),
      (''batch_execution_id'',
         js_or (field (ss ! i) ''batch_execution_id'') (field (ss ! i) ''batchExecutionId'')),
      (''status'', field (ss ! i) ''status''),
      (''queue_name'', js_or (field (ss ! i) ''queue_name'') (field (ss ! i) ''queueName''))]"
proof (induction ss arbitrary: ns i)
  case Nil
  then show ?case by simp
next
  case (Cons s ss)
  then show ?case
    by (cases i) (auto split: if_splits sum.splits)
qed

lemma summaryRow_cells:
  "summaryRow dm batch =
     ''| '' @ to_string (if truthy (field batch ''eval_name'') then field batch ''eval_name''
                         else if truthy (field batch ''evalName'') then field batch ''evalName''
                         else JStr ''N/A'')
     @ '' | '' @ to_string (if truthy (field batch ''total_records'') then field batch ''total_records''
                         else if truthy (field batch ''totalRecords'') then field batch ''totalRecords''
                         else JNum 0)
     @ '' | '' @ to_string (if truthy (field batch ''processed_records'') then field batch ''processed_records''
                         else if truthy (field batch ''processedRecords'') then field batch ''processedRecords''
                         else JNum 0)
     @ '' | '' @ to_string (if truthy (field batch ''failed_records'') then field batch ''failed_records''
                         else if truthy (field batch ''failedRecords'') then field batch ''failedRecords''
                         else JNum 0)
     @ '' | '' @ to_string (field batch ''status'') @ '' | '' @ costStr dm batch @ '' |''"
  by (simp add: summaryRow_def js_or_def Let_def)

text \<open>
  C3, as the script has it. Each normalized submission has under the snake_case name
  the snake_case value of the server's submission when that value is truthy (neither
  missing, \<^verbatim>\<open>null\<close>, \<^verbatim>\<open>false\<close>, 0 nor the empty string), and the camelCase value
  otherwise, which is \<^verbatim>\<open>undefined\<close> when there is none. The status has one name only.
  A row of the summary table shows the eval name and the three record counts by the same
  rule, with \<^verbatim>\<open>N/A\<close> and 0 when the camelCase value is not truthy either.
\<close>

theorem normalization_by_truthiness:
  assumes "normalizeSubmissions ss = Inr ns" and "i < length ss"
  shows "field (ns ! i) ''eval_name''
           = (if truthy (field (ss ! i) ''eval_name'') then field (ss ! i) ''eval_name''
              else field (ss ! i) ''evalName'')
       \<and> field (ns ! i) ''batch_execution_id''
           = (if truthy (field (ss ! i) ''batch_execution_id'') then field (ss ! i) ''batch_execution_id''
              else field (ss ! i) ''batchExecutionId'')
       \<and> field (ns ! i) ''queue_name''
           = (if truthy (field (ss ! i) ''queue_name'') then field (ss ! i) ''queue_name''
              else field (ss ! i) ''queueName'')
       \<and> field (ns ! i) ''status'' = field (ss ! i) ''status''
       \<and> summaryRow dm batch =
           ''| '' @ to_string (if truthy (field batch ''eval_name'') then field batch ''eval_name''
                               else if truthy (field batch ''evalName'') then field batch ''evalName''
                               else JStr ''N/A'')
           @ '' | '' @ to_string (if truthy (field batch ''total_records'') then field batch ''total_records''
                               else if truthy (field batch ''totalRecords'') then field batch ''totalRecords''
                               else JNum 0)
           @ '' | '' @ to_string (if truthy (field batch ''processed_records'')
                               then field batch ''processed_records''
                               else if truthy (field batch ''processedRecords'')
                               then field batch ''processedRecords''
                               else JNum 0)
           @ '' | '' @ to_string (if truthy (field batch ''failed_records'') then field batch ''failed_records''
                               else if truthy (field batch ''failedRecords'') then field batch ''failedRecords''
                               else JNum 0)
           @ '' | '' @ to_string (field batch ''status'') @ '' | '' @ costStr dm batch @ '' |''"
  using normalizeSubmissions_nth [OF assms] summaryRow_cells [of dm batch]
  by (simp add: js_or_def)

theorem normalization_by_truthiness_witness:
  "normalizeSubmissions [JObj [(''eval_name'', JStr ''e1''), (''evalName'', JStr ''other''),
                               (''batchExecutionId'', JStr ''b1''), (''status'', JStr ''queued'')]]
     = Inr [scenario_submission ''b1'']
   \<and> field (scenario_submission ''b1'') ''eval_name'' = JStr ''e1''
   \<and> field (scenario_submission ''b1'') ''batch_execution_id'' = JStr ''b1''
   \<and> field (scenario_submission ''b1'') ''queue_name'' = JUndefined"
proof -
  have h: "normalizeSubmissions [JObj [(''eval_name'', JStr ''e1''), (''evalName'', JStr ''other''),
                               (''batchExecutionId'', JStr ''b1''), (''status'', JStr ''queued'')]]
     = Inr [scenario_submission ''b1'']"
    by (simp add: js_or_def scenario_submission_def)
  show ?thesis
    using h normalization_by_truthiness [OF h, of 0] by simp
qed

text \<open>
  C3 as the specification states it fails: the snake_case name is there with the empty
  string, which is not \<^verbatim>\<open>null\<close>, and the camelCase value is taken; the queue name is
  there under one name only, and its value, the empty string, becomes \<^verbatim>\<open>undefined\<close>.
  In the summary table, a batch with \<^verbatim>\<open>total_records\<close> 0 and \<^verbatim>\<open>totalRecords\<close> 5
  shows 5.
\<close>

theorem normalization_falsy_counterexample:
  "submitEval (Ok (JObj [(''submissions'', JArr
       [JObj [(''eval_name'', JStr ''''), (''evalName'', JStr ''nightly''),
              (''batch_execution_id'', JStr ''b1''), (''queue_name'', JStr '''')]])]))
   = Inr (JObj [(''eval_group_id'', JUndefined), (''total_evals'', JUndefined),
       (''submissions'', JArr
          [JObj [(''eval_name'', JStr ''nightly''), (''batch_execution_id'', JStr ''b1''),
                 (''status'', JUndefined), (''queue_name'', JUndefined)]])])
   \<and> summaryRow None (JObj [(''eval_name'', JStr ''e1''), (''total_records'', JNum 0),
                             (''totalRecords'', JNum 5), (''status'', JStr ''running'')])
     = ''| e1 | 5 | 0 | 0 | running | N/A |''"
proof -
  have "summaryRow None (JObj [(''eval_name'', JStr ''e1''), (''total_records'', JNum 0),
                             (''totalRecords'', JNum 5), (''status'', JStr ''running'')])
     = ''| e1 | 5 | 0 | 0 | running | N/A |''"
    by code_simp
  then show ?thesis
    by (simp add: submitEval_def makeRequest_def js_or_def)
qed

section \<open>The scenario, from the submission to the summary\<close>

text \<open>
  The server answers the submission with one batch \<^verbatim>\<open>b1\<close>; the first poll reports it
  as running, the second as completed; its results hold one step that costs 0.0123. The
  row of the summary shows the status \<^verbatim>\<open>completed\<close> and the cost \<^verbatim>\<open>$0.0123\<close>.
\<close>

lemma scenario_end_to_end:
  "submitEval (Ok (JObj [(''submissions'', JArr
       [JObj [(''batch_execution_id'', JStr ''b1''), (''eval_name'', JStr ''e1''),
              (''status'', JStr ''queued'')]])]))
     = Inr (JObj [(''eval_group_id'', JUndefined), (''total_evals'', JUndefined),
                  (''submissions'', JArr [scenario_submission ''b1''])])"
  "pollForCompletion 1800000 [scenario_submission ''b1''] 0
     [(0, Ok (JObj [(''batches'', JArr [scenario_batch ''b1'' ''running''])])),
      (5000, Ok (JObj [(''batches'', JArr [scenario_batch ''b1'' ''completed''])]))]
     = Returned [scenario_batch ''b1'' ''completed''] 2"
  "generateSummaryTable [scenario_batch ''b1'' ''completed'']
     (Some (Map.empty(''b1'' \<mapsto> scenario_results (Num (round_double (123 / 10000))))))
   = Inr (join nl
       [''## Summary'', [],
        ''| Eval Name | Total Records | Processed | Failed | Status | Total Cost |'',
        ''|-----------|---------------|-----------|--------|--------|------------|'',
        ''| e1 | 1 | 1 | 0 | completed | $0.0123 |'', []])"
  by code_simp+

section \<open>What the polling loop returns\<close>

text \<open>
  When the loop returns, it returns the batches of ours of one answer, all of them
  finished, read within the maximum wait, and it has called the status endpoint once for
  this answer and once for each round before it. It fails with the timeout error only.
  As long as each answer is an error or lists an unfinished batch of ours, it does not
  return.
\<close>

lemma poll_loop_Returned:
  "poll_loop maxWait batchIds startTime calls rounds = Returned bs n \<Longrightarrow>
   \<exists>k<length rounds. ourBatches batchIds (snd (rounds ! k)) = Inr bs \<and> allFinished bs
      \<and> fst (rounds ! k) - startTime \<le> maxWait \<and> n = calls + k + 1"
proof (induction rounds arbitrary: calls)
  case Nil
  then show ?case by simp
next
  case (Cons r rounds)
  obtain now http where r: "r = (now, http)" by (cases r)
  show ?case
  proof (cases "ourBatches batchIds http")
    case (Inl e)
    with Cons.prems r have "poll_loop maxWait batchIds startTime (Suc calls) rounds = Returned bs n"
      by (simp add: Let_def split: if_splits)
    from Cons.IH [OF this] show ?thesis by auto
  next
    case (Inr ours)
    show ?thesis
    proof (cases "allFinished ours")
      case True
      with Cons.prems r Inr have "bs = ours" "n = Suc calls" "now - startTime \<le> maxWait"
        by (simp_all add: Let_def split: if_splits)
      with True Inr r show ?thesis by auto
    next
      case False
      with Cons.prems r Inr have "poll_loop maxWait batchIds startTime (Suc calls) rounds = Returned bs n"
        by (simp add: Let_def split: if_splits)
      from Cons.IH [OF this] show ?thesis by auto
    qed
  qed
qed

lemma poll_loop_Failed:
  "poll_loop maxWait batchIds startTime calls rounds = Failed e n \<Longrightarrow>
   e = MaxWaitExceeded (formatDuration maxWait)"
  by (induction rounds arbitrary: calls) (auto simp: Let_def split: sum.splits if_splits)

lemma poll_loop_waits:
  "list_all (\<lambda>r. case ourBatches batchIds (snd r) of Inl e \<Rightarrow> True | Inr ours \<Rightarrow> \<not> allFinished ours) rounds
   \<Longrightarrow> poll_loop maxWait batchIds startTime calls rounds \<noteq> Returned bs n"
  by (induction rounds arbitrary: calls) (auto simp: Let_def split: sum.splits if_splits)

section \<open>Batches that the status endpoint does not list\<close>

text \<open>
  An answer within the maximum wait that lists no batch ends the loop at once, whatever
  was submitted.
\<close>

lemma pollForCompletion_nothing_listed:
  "\<not> list_ex nullish submissions \<Longrightarrow> now - startTime \<le> maxWait \<Longrightarrow>
   pollForCompletion maxWait submissions startTime ((now, Ok (JObj [(''batches'', JArr [])])) # rounds)
     = Returned [] 1"
  by (simp add: pollForCompletion_def ourBatches_def getEvalBatches_def makeRequest_def
      js_or_def allFinished_def)

text \<open>
  C1. The claim is that \<^verbatim>\<open>pollForCompletion\<close> returns no result when a submitted
  batch never appears in the answers of the status endpoint. The script does return:
  the only submitted batch is \<^verbatim>\<open>b1\<close>, the first answer lists no batch at all, and the
  call returns the empty list after this one call, within the maximum wait.
\<close>

theorem pollForCompletion_missing_batch_returns:
  "pollForCompletion 1800000 [scenario_submission ''b1''] 0
     [(0, Ok (JObj [(''batches'', JArr [])]))]
   = Returned [] 1"
  by code_simp

text \<open>
  C5. The claim is that \<^verbatim>\<open>pollForCompletion\<close> returns the batches of all submissions
  when each of them is reported as completed or failed in the end. The script returns
  with the first answer whose listed batches of ours are all finished: \<^verbatim>\<open>b1\<close> and
  \<^verbatim>\<open>b2\<close> are submitted, the first answer lists \<^verbatim>\<open>b1\<close> only, the second both, and
  the call returns \<^verbatim>\<open>b1\<close> alone after one call.
\<close>

theorem pollForCompletion_partial_listing_returns:
  "pollForCompletion 1800000 [scenario_submission ''b1'', scenario_submission ''b2''] 0
     [(0, Ok (JObj [(''batches'', JArr [scenario_batch ''b1'' ''completed''])])),
      (5000, Ok (JObj [(''batches'', JArr
          [scenario_batch ''b1'' ''completed'', scenario_batch ''b2'' ''completed''])]))]
   = Returned [scenario_batch ''b1'' ''completed''] 1"
  by code_simp

end
